theory Spec2Isabelle
  imports Main "HOL-Library.Char_ord" "HOL-Library.List_Lexorder" "HOL-Library.Sublist"
    "HOL-Library.Multiset"
begin

section \<open>The Python operations that backend.py relies on\<close>

text \<open>
  Strings are modelled as \<^typ>\<open>string\<close> and read as ASCII text: one \<^typ>\<open>char\<close> per
  character. \<open>str.lower\<close>, \<open>str.strip\<close>, \<open>int\<close> and the comparison of strings by
  \<open>sorted\<close> are modelled for ASCII; characters outside ASCII are left alone by
  \<open>lower\<close> and are never whitespace here.

  Every exception the module can raise is a value of \<open>error\<close>. The constructors are named
  after the Python exception class, with the raising call where one class has several:
  \<^item> \<open>ValueError_not_in_list\<close>: \<open>list.index(x)\<close>, x is not in the list;
  \<^item> \<open>ValueError_empty_separator\<close>: \<open>str.split('')\<close>;
  \<^item> \<open>ValueError_int\<close>, \<open>ValueError_float\<close>: \<open>int(s)\<close>, \<open>float(s)\<close> on a string that
    is no literal;
  \<^item> \<open>IndexError\<close>: \<open>xs[i]\<close> out of range;
  \<^item> \<open>KeyError\<close>: \<open>d[k]\<close> for a missing key;
  \<^item> \<open>OperationalError\<close>: \<open>sqlite3.OperationalError\<close> (no such table, table already
    exists);
  \<^item> \<open>OverflowError\<close>: a Python int outside the 64-bit range bound to an SQL parameter.
\<close>

datatype error =
    ValueError_not_in_list
  | ValueError_empty_separator
  | ValueError_int
  | ValueError_float
  | IndexError
  | KeyError
  | OperationalError
  | OverflowError

text \<open>Sequencing of two steps, the first of which may raise.\<close>

definition and_then :: "error + 'a \<Rightarrow> ('a \<Rightarrow> error + 'b) \<Rightarrow> error + 'b" where
  "and_then r k = (case r of Inl e \<Rightarrow> Inl e | Inr v \<Rightarrow> k v)"

subsection \<open>Strings\<close>

text \<open>
  The ASCII characters for which \<open>str.isspace\<close> holds: tab, line feed, vertical tab,
  form feed, carriage return, the four separators 0x1C to 0x1F, and the space.
\<close>

definition isspace :: "char \<Rightarrow> bool" where
  "isspace c = (c \<in> set [CHR 0x09, CHR 0x0A, CHR 0x0B, CHR 0x0C, CHR 0x0D,
                            CHR 0x1C, CHR 0x1D, CHR 0x1E, CHR 0x1F, CHR '' ''])"

text \<open>\<open>s.strip()\<close>: leading and trailing whitespace removed.\<close>

definition strip :: "string \<Rightarrow> string" where
  "strip s = rev (dropWhile isspace (rev (dropWhile isspace s)))"

definition isupper :: "char \<Rightarrow> bool" where
  "isupper c = (c \<in> set ''ABCDEFGHIJKLMNOPQRSTUVWXYZ'')"

definition lower_char :: "char \<Rightarrow> char" where
  "lower_char c =
     (case map_of (zip ''ABCDEFGHIJKLMNOPQRSTUVWXYZ'' ''abcdefghijklmnopqrstuvwxyz'') c of
        Some l \<Rightarrow> l
      | None \<Rightarrow> c)"

text \<open>\<open>s.lower()\<close>.\<close>

definition lower :: "string \<Rightarrow> string" where
  "lower s = map lower_char s"

text \<open>
  \<open>s.split(sep)\<close> for a non-empty separator: the text is cut at every occurrence of
  \<open>sep\<close>, found from left to right without overlap; the result is never empty
  (\<open>''.split(',') == ['']\<close>). An empty separator raises ValueError.
\<close>

function split_at :: "string \<Rightarrow> string \<Rightarrow> string list" where
  "split_at sep [] = [[]]"
| "split_at sep (c # cs) =
     (if sep \<noteq> [] \<and> prefix sep (c # cs)
      then [] # split_at sep (drop (length sep) (c # cs))
      else (case split_at sep cs of
              [] \<Rightarrow> [[c]]
            | w # ws \<Rightarrow> (c # w) # ws))"
  by pat_completeness auto
termination
  by (relation "measure (\<lambda>(sep, s). length s)") auto

definition split :: "string \<Rightarrow> string \<Rightarrow> error + string list" where
  "split s sep = (if sep = [] then Inl ValueError_empty_separator else Inr (split_at sep s))"

subsection \<open>Numbers\<close>

text \<open>
  \<open>int(s)\<close> in base 10: whitespace around the literal is dropped, one sign may come
  first, then digits, where single underscores may stand between two digits. Anything else
  raises ValueError. (The interpreter's limit on the number of digits of a literal is not
  modelled.)
\<close>

definition isdigit :: "char \<Rightarrow> bool" where
  "isdigit c = (c \<in> set ''0123456789'')"

definition digit_value :: "char \<Rightarrow> nat" where
  "digit_value c = (case map_of (zip ''0123456789'' [0, 1, 2, 3, 4, 5, 6, 7, 8, 9]) c of
                      Some d \<Rightarrow> d
                    | None \<Rightarrow> 0)"

fun digits_after :: "nat \<Rightarrow> string \<Rightarrow> nat option" where
  "digits_after acc [] = Some acc"
| "digits_after acc [c] = (if isdigit c then Some (10 * acc + digit_value c) else None)"
| "digits_after acc (c # d # ds) =
     (if isdigit c then digits_after (10 * acc + digit_value c) (d # ds)
      else if c = CHR ''_'' \<and> isdigit d then digits_after (10 * acc + digit_value d) ds
      else None)"

definition digits :: "string \<Rightarrow> nat option" where
  "digits s = (case s of
                 [] \<Rightarrow> None
               | c # cs \<Rightarrow> if isdigit c then digits_after (digit_value c) cs else None)"

definition py_int :: "string \<Rightarrow> error + int" where
  "py_int s =
     (let t = strip s;
          negative = (t \<noteq> [] \<and> hd t = CHR ''-'');
          signed = (t \<noteq> [] \<and> (hd t = CHR ''-'' \<or> hd t = CHR ''+''))
      in case digits (if signed then tl t else t) of
           None \<Rightarrow> Inl ValueError_int
         | Some n \<Rightarrow> Inr (if negative then - int n else int n))"

text \<open>
  \<open>float(s)\<close> is not modelled: the functions below take it as the parameter
  \<open>py_float :: string \<Rightarrow> 'f option\<close>, \<open>None\<close> where \<open>float\<close> raises ValueError, with
  the type \<open>'f\<close> of floating-point values left open. Nothing in the module computes with
  a float; the values are stored and returned.
\<close>

definition float :: "(string \<Rightarrow> 'f option) \<Rightarrow> string \<Rightarrow> error + 'f" where
  "float py_float s = (case py_float s of None \<Rightarrow> Inl ValueError_float | Some x \<Rightarrow> Inr x)"

subsection \<open>Lists, dicts, files\<close>

text \<open>\<open>xs.index(x)\<close>: the position of the first occurrence.\<close>

fun index :: "'a list \<Rightarrow> 'a \<Rightarrow> error + nat" where
  "index [] x = Inl ValueError_not_in_list"
| "index (y # ys) x = (if y = x then Inr 0 else and_then (index ys x) (\<lambda>i. Inr (Suc i)))"

text \<open>\<open>xs[i]\<close> for an index that is not negative.\<close>

definition getitem :: "'a list \<Rightarrow> nat \<Rightarrow> error + 'a" where
  "getitem xs i = (if i < length xs then Inr (xs ! i) else Inl IndexError)"

text \<open>\<open>d[k]\<close> on a dict.\<close>

definition dict_getitem :: "('k \<rightharpoonup> 'v) \<Rightarrow> 'k \<Rightarrow> error + 'v" where
  "dict_getitem d k = (case d k of None \<Rightarrow> Inl KeyError | Some v \<Rightarrow> Inr v)"

text \<open>
  An open text file is the list of the lines still to be read, each line with its line
  end. \<open>f.readline()\<close> returns the next line, or the empty string at the end of the file.
\<close>

definition readline :: "string list \<Rightarrow> string \<times> string list" where
  "readline f = (case f of [] \<Rightarrow> ([], []) | l # ls \<Rightarrow> (l, ls))"

text \<open>\<open>sorted(set(ell))\<close>.\<close>

definition unique_and_sort :: "'a::linorder list \<Rightarrow> 'a list" where
  "unique_and_sort ell = sorted_list_of_set (set ell)"

section \<open>The database\<close>

text \<open>
  A row of the table \<open>pokemon\<close>, with the nine columns of its CREATE TABLE statement.
\<close>

record 'f pokemon =
  name :: string
  species_id :: int
  height :: 'f
  weight :: 'f
  type_1 :: string
  type_2 :: string
  url_image :: string
  generation_id :: int
  evolves_from_species_id :: string

text \<open>
  The connection and its cursor, which the module always passes together, are one value:
  the table \<open>pokemon\<close> of the database (\<open>None\<close> when the database has no such table; the
  rows in the order of insertion otherwise), and the rows of the last statement that the
  cursor has not handed out yet. A statement that raises leaves the cursor without rows.
  \<open>con.commit()\<close> changes nothing that these functions can see and is left out.
\<close>

record ('f, 'a) cursor =
  pokemon_table :: "'f pokemon list option"
  results :: "'a list"

text \<open>\<open>DROP TABLE IF EXISTS pokemon\<close>\<close>

definition execute_drop_table :: "('f, 'a) cursor \<Rightarrow> (error + unit) \<times> ('f, 'b) cursor" where
  "execute_drop_table cur = (Inr (), \<lparr>pokemon_table = None, results = []\<rparr>)"

text \<open>\<open>CREATE TABLE pokemon (...)\<close>\<close>

definition execute_create_table :: "('f, 'a) cursor \<Rightarrow> (error + unit) \<times> ('f, 'b) cursor" where
  "execute_create_table cur =
     (case pokemon_table cur of
        None \<Rightarrow> (Inr (), \<lparr>pokemon_table = Some [], results = []\<rparr>)
      | Some rows \<Rightarrow> (Inl OperationalError, \<lparr>pokemon_table = Some rows, results = []\<rparr>))"

text \<open>
  \<open>INSERT INTO pokemon VALUES (?, ?, ?, ?, ?, ?, ?, ?, ?)\<close>: the statement is compiled
  first (no such table), then the parameters are bound (an int must fit 64 bits).
\<close>

definition int64 :: "int \<Rightarrow> bool" where
  "int64 i = (- (2 ^ 63) \<le> i \<and> i < 2 ^ 63)"

definition execute_insert ::
  "'f pokemon \<Rightarrow> ('f, 'a) cursor \<Rightarrow> (error + unit) \<times> ('f, 'b) cursor" where
  "execute_insert row cur =
     (case pokemon_table cur of
        None \<Rightarrow> (Inl OperationalError, \<lparr>pokemon_table = None, results = []\<rparr>)
      | Some rows \<Rightarrow>
          if int64 (species_id row) \<and> int64 (generation_id row)
          then (Inr (), \<lparr>pokemon_table = Some (rows @ [row]), results = []\<rparr>)
          else (Inl OverflowError, \<lparr>pokemon_table = Some rows, results = []\<rparr>))"

text \<open>
  \<open>SELECT cols FROM pokemon WHERE cond\<close>: the rows that satisfy \<open>cond\<close>, in the order
  of the table, each projected by \<open>cols\<close>. A row with one column is modelled by that
  column's value, so \<open>element[0]\<close> of the source is \<open>element\<close> here.
\<close>

definition execute_select ::
  "('f pokemon \<Rightarrow> 'b) \<Rightarrow> ('f pokemon \<Rightarrow> bool) \<Rightarrow> ('f, 'a) cursor
     \<Rightarrow> (error + unit) \<times> ('f, 'b) cursor" where
  "execute_select cols cond cur =
     (case pokemon_table cur of
        None \<Rightarrow> (Inl OperationalError, \<lparr>pokemon_table = None, results = []\<rparr>)
      | Some rows \<Rightarrow>
          (Inr (), \<lparr>pokemon_table = Some rows, results = map cols (filter cond rows)\<rparr>))"

definition fetchone :: "('f, 'a) cursor \<Rightarrow> 'a option \<times> ('f, 'a) cursor" where
  "fetchone cur =
     (case results cur of
        [] \<Rightarrow> (None, cur)
      | r # rs \<Rightarrow> (Some r, cur\<lparr>results := rs\<rparr>))"

definition fetchall :: "('f, 'a) cursor \<Rightarrow> 'a list \<times> ('f, 'a) cursor" where
  "fetchall cur = (results cur, cur\<lparr>results := []\<rparr>)"

section \<open>backend.py\<close>

text \<open>
  \<open>const.SEP\<close>, the field separator, is defined in a module that is not part of the
  sources at hand: it is the parameter \<open>SEP\<close> of the functions that use it.
\<close>

subsection \<open>table_exists\<close>

definition table_exists :: "('f, 'a) cursor \<Rightarrow> (error + bool) \<times> ('f, 'f pokemon) cursor" where
  "table_exists cur =
     (case execute_select (\<lambda>r. r) (\<lambda>r. True) cur of
        (Inl e, cur1) \<Rightarrow> if e = OperationalError then (Inr False, cur1) else (Inl e, cur1)
      | (Inr u, cur1) \<Rightarrow>
          (case fetchone cur1 of (row, cur2) \<Rightarrow> (Inr (row \<noteq> None), cur2)))"

subsection \<open>parse_header\<close>

definition columns :: "string list" where
  "columns = [''pokemon'', ''species_id'', ''height'', ''weight'', ''type_1'', ''type_2'',
              ''url_image'', ''generation_id'', ''evolves_from_species_id'']"

text \<open>The loop \<open>for column in columns: result[column] = header.index(column)\<close>.\<close>

fun header_loop ::
  "string list \<Rightarrow> string list \<Rightarrow> (string \<rightharpoonup> nat) \<Rightarrow> error + (string \<rightharpoonup> nat)" where
  "header_loop [] header result = Inr result"
| "header_loop (column # cs) header result =
     (case index header column of
        Inl e \<Rightarrow> Inl e
      | Inr i \<Rightarrow> header_loop cs header (result(column \<mapsto> i)))"

text \<open>The result, and the file after its first line has been read.\<close>

definition parse_header ::
  "string \<Rightarrow> string list \<Rightarrow> (error + (string \<rightharpoonup> nat)) \<times> string list" where
  "parse_header SEP f =
     (case readline f of (l, f1) \<Rightarrow>
        (case split (strip l) SEP of
           Inl e \<Rightarrow> (Inl e, f1)
         | Inr header \<Rightarrow> (header_loop columns header Map.empty, f1)))"

subsection \<open>create_table\<close>

text \<open>\<open>line[header_dict[column]]\<close>\<close>

definition field :: "string list \<Rightarrow> (string \<rightharpoonup> nat) \<Rightarrow> string \<Rightarrow> error + string" where
  "field line header_dict column = and_then (dict_getitem header_dict column) (getitem line)"

text \<open>
  The body of the loop over the lines, up to the INSERT statement: the row made from one
  line, in the order in which the source reads and converts the fields.
\<close>

definition parse_line ::
  "string \<Rightarrow> (string \<Rightarrow> 'f option) \<Rightarrow> (string \<rightharpoonup> nat) \<Rightarrow> string \<Rightarrow> error + 'f pokemon" where
  "parse_line SEP py_float header_dict l =
     and_then (split (strip l) SEP) (\<lambda>line.
     and_then (field line header_dict ''pokemon'') (\<lambda>pokemon.
     and_then (and_then (field line header_dict ''species_id'') py_int) (\<lambda>sid.
     and_then (and_then (field line header_dict ''height'') (float py_float)) (\<lambda>h.
     and_then (and_then (field line header_dict ''weight'') (float py_float)) (\<lambda>w.
     and_then (field line header_dict ''type_1'') (\<lambda>t1.
     and_then (field line header_dict ''type_2'') (\<lambda>t2.
     and_then (field line header_dict ''url_image'') (\<lambda>url.
     and_then (and_then (field line header_dict ''generation_id'') py_int) (\<lambda>gen.
     and_then (field line header_dict ''evolves_from_species_id'') (\<lambda>evolves.
       Inr \<lparr>name = lower pokemon, species_id = sid, height = h, weight = w,
            type_1 = lower t1, type_2 = lower t2, url_image = lower url,
            generation_id = gen, evolves_from_species_id = lower evolves\<rparr>))))))))))"

text \<open>The loop \<open>for line in f\<close>; the first exception ends it.\<close>

fun insert_lines ::
  "string \<Rightarrow> (string \<Rightarrow> 'f option) \<Rightarrow> (string \<rightharpoonup> nat) \<Rightarrow> string list
     \<Rightarrow> ('f, 'a) cursor \<Rightarrow> (error + unit) \<times> ('f, 'a) cursor" where
  "insert_lines SEP py_float header_dict [] cur = (Inr (), cur)"
| "insert_lines SEP py_float header_dict (l # f) cur =
     (case parse_line SEP py_float header_dict l of
        Inl e \<Rightarrow> (Inl e, cur)
      | Inr row \<Rightarrow>
          (case execute_insert row cur of
             (Inl e, cur1) \<Rightarrow> (Inl e, cur1)
           | (Inr u, cur1) \<Rightarrow> insert_lines SEP py_float header_dict f cur1))"

text \<open>
  \<open>create_table\<close> takes the lines of the CSV file in place of its name (opening the
  file is outside the model).
\<close>

definition create_table ::
  "string \<Rightarrow> (string \<Rightarrow> 'f option) \<Rightarrow> string list \<Rightarrow> ('f, 'a) cursor
     \<Rightarrow> (error + unit) \<times> ('f, 'a) cursor" where
  "create_table SEP py_float f cur =
     (case execute_drop_table cur of
        (Inl e, cur1) \<Rightarrow> (Inl e, cur1)
      | (Inr u, cur1) \<Rightarrow>
          (case execute_create_table cur1 of
             (Inl e, cur2) \<Rightarrow> (Inl e, cur2)
           | (Inr u, cur2) \<Rightarrow>
               (case parse_header SEP f of
                  (Inl e, f1) \<Rightarrow> (Inl e, cur2)
                | (Inr header_dict, f1) \<Rightarrow> insert_lines SEP py_float header_dict f1 cur2)))"

subsection \<open>The queries\<close>

text \<open>The loop \<open>for element in data: new_list.append(element[0])\<close>.\<close>

definition append_all :: "'a list \<Rightarrow> 'a list" where
  "append_all data = foldl (\<lambda>new_list element. new_list @ [element]) [] data"

definition get_pokemon_names ::
  "('f, 'a) cursor \<Rightarrow> (error + string list) \<times> ('f, string) cursor" where
  "get_pokemon_names cur =
     (case execute_select name (\<lambda>r. True) cur of
        (Inl e, cur1) \<Rightarrow> (Inl e, cur1)
      | (Inr u, cur1) \<Rightarrow>
          (case fetchall cur1 of (data, cur2) \<Rightarrow> (Inr (sort (append_all data)), cur2)))"

definition get_stats_by_name ::
  "string \<Rightarrow> ('f, 'a) cursor \<Rightarrow> (error + 'f pokemon) \<times> ('f, 'f pokemon) cursor" where
  "get_stats_by_name nm cur =
     (case execute_select (\<lambda>r. r) (\<lambda>r. name r = nm) cur of
        (Inl e, cur1) \<Rightarrow> (Inl e, cur1)
      | (Inr u, cur1) \<Rightarrow>
          (case fetchall cur1 of (data, cur2) \<Rightarrow> (getitem data 0, cur2)))"

definition get_pokemon_ids ::
  "('f, 'a) cursor \<Rightarrow> (error + int list) \<times> ('f, int) cursor" where
  "get_pokemon_ids cur =
     (case execute_select species_id (\<lambda>r. True) cur of
        (Inl e, cur1) \<Rightarrow> (Inl e, cur1)
      | (Inr u, cur1) \<Rightarrow>
          (case fetchall cur1 of (data, cur2) \<Rightarrow> (Inr (sort (append_all data)), cur2)))"

definition get_stats_by_id ::
  "int \<Rightarrow> ('f, 'a) cursor \<Rightarrow> (error + 'f pokemon) \<times> ('f, 'f pokemon) cursor" where
  "get_stats_by_id sid cur =
     (case execute_select (\<lambda>r. r) (\<lambda>r. species_id r = sid) cur of
        (Inl e, cur1) \<Rightarrow> (Inl e, cur1)
      | (Inr u, cur1) \<Rightarrow>
          (case fetchall cur1 of (data, cur2) \<Rightarrow> (getitem data 0, cur2)))"

text \<open>
  The nested loop of \<open>get_pokemon_types\<close>: every element of every pair
  \<open>(type_1, type_2)\<close> is appended unless it is in the list already.
\<close>

definition append_new :: "'a list \<Rightarrow> 'a \<Rightarrow> 'a list" where
  "append_new new_list element =
     (if element \<notin> set new_list then new_list @ [element] else new_list)"

definition collect_types :: "('a \<times> 'a) list \<Rightarrow> 'a list" where
  "collect_types data =
     foldl (\<lambda>new_list types. foldl append_new new_list [fst types, snd types]) [] data"

definition get_pokemon_types ::
  "('f, 'a) cursor \<Rightarrow> (error + string list) \<times> ('f, string \<times> string) cursor" where
  "get_pokemon_types cur =
     (case execute_select (\<lambda>r. (type_1 r, type_2 r)) (\<lambda>r. True) cur of
        (Inl e, cur1) \<Rightarrow> (Inl e, cur1)
      | (Inr u, cur1) \<Rightarrow>
          (case fetchall cur1 of
             (data, cur2) \<Rightarrow> (Inr (unique_and_sort (collect_types data)), cur2)))"

definition get_pokemon_by_type ::
  "string \<Rightarrow> ('f, 'a) cursor \<Rightarrow> (error + string list) \<times> ('f, string) cursor" where
  "get_pokemon_by_type pokemon_type cur =
     (case execute_select name (\<lambda>r. type_1 r = pokemon_type \<or> type_2 r = pokemon_type) cur of
        (Inl e, cur1) \<Rightarrow> (Inl e, cur1)
      | (Inr u, cur1) \<Rightarrow>
          (case fetchall cur1 of
             (data, cur2) \<Rightarrow> (Inr (unique_and_sort (append_all data)), cur2)))"

section \<open>Vocabulary of the properties\<close>

text \<open>A string is in lower case when \<open>lower\<close> leaves it as it is.\<close>

definition is_lower :: "string \<Rightarrow> bool" where
  "is_lower s = (lower s = s)"

definition lower_case_row :: "'f pokemon \<Rightarrow> bool" where
  "lower_case_row r =
     (is_lower (name r) \<and> is_lower (type_1 r) \<and> is_lower (type_2 r) \<and>
      is_lower (url_image r) \<and> is_lower (evolves_from_species_id r))"

definition lower_case_table :: "'f pokemon list option \<Rightarrow> bool" where
  "lower_case_table tbl = (case tbl of None \<Rightarrow> True | Some rows \<Rightarrow> list_all lower_case_row rows)"

text \<open>
  The operations that the module offers on an open database, and the table that each
  leaves behind when it is called on a database whose table is \<open>tbl\<close> (whether it
  returns or raises).
\<close>

datatype operation =
    Load "string list"
  | Exists
  | ListNames
  | ListSpeciesIds
  | GetByName string
  | GetById int
  | ListTypes
  | ListByType string

definition table_after ::
  "(('f, unit) cursor \<Rightarrow> 'r \<times> ('f, 'b) cursor) \<Rightarrow> 'f pokemon list option
     \<Rightarrow> 'f pokemon list option" where
  "table_after call tbl = pokemon_table (snd (call \<lparr>pokemon_table = tbl, results = []\<rparr>))"

fun perform ::
  "string \<Rightarrow> (string \<Rightarrow> 'f option) \<Rightarrow> 'f pokemon list option \<Rightarrow> operation
     \<Rightarrow> 'f pokemon list option" where
  "perform SEP py_float tbl (Load f) = table_after (create_table SEP py_float f) tbl"
| "perform SEP py_float tbl Exists = table_after table_exists tbl"
| "perform SEP py_float tbl ListNames = table_after get_pokemon_names tbl"
| "perform SEP py_float tbl ListSpeciesIds = table_after get_pokemon_ids tbl"
| "perform SEP py_float tbl (GetByName nm) = table_after (get_stats_by_name nm) tbl"
| "perform SEP py_float tbl (GetById sid) = table_after (get_stats_by_id sid) tbl"
| "perform SEP py_float tbl ListTypes = table_after get_pokemon_types tbl"
| "perform SEP py_float tbl (ListByType t) = table_after (get_pokemon_by_type t) tbl"

subsection \<open>Examples\<close>

text \<open>
  In the examples a floating-point value is written as its decimal literal, and
  \<open>example_float\<close> is \<open>float\<close> on the literals that occur in them.
\<close>

definition example_float :: "string \<Rightarrow> string option" where
  "example_float s = (if s \<in> set [''0.7'', ''6.9'', ''0.6'', ''8.5'', ''1.7'', ''90.5'']
                      then Some s else None)"

text \<open>A database that has never been loaded.\<close>

definition fresh :: "(string, unit) cursor" where
  "fresh = \<lparr>pokemon_table = None, results = []\<rparr>"

text \<open>The CSV file of the scenario of the specification: name column second, one row.\<close>

definition scenario_csv :: "string list" where
  "scenario_csv =
     [''species_id,pokemon,height,weight,type_1,type_2,url_image,generation_id,evolves_from_species_id''
        @ [CHR 0x0A],
      ''1,Bulbasaur,0.7,6.9,Grass,Poison,http://x,1,'' @ [CHR 0x0A]]"

text \<open>A CSV file with an additional column, mixed case and a repeated name.\<close>

definition example_csv :: "string list" where
  "example_csv =
     [''pokemon,species_id,height,weight,type_1,type_2,url_image,generation_id,evolves_from_species_id,note''
        @ [CHR 0x0A],
      ''Charmander,4,0.6,8.5,Fire,,HTTP://img/4.PNG,1,,starter'' @ [CHR 0x0A],
      ''Charizard,6,1.7,90.5,Fire,Flying,http://img/6.png,1,5,'' @ [CHR 0x0A],
      ''Bulbasaur,1,0.7,6.9,Grass,Poison,http://img/1.png,1,,starter'' @ [CHR 0x0A],
      ''CHARIZARD,6,1.7,90.5,Fire,Flying,http://img/6b.png,1,5,'' @ [CHR 0x0A]]"

text \<open>The table that loading \<open>example_csv\<close> leaves.\<close>

definition example_rows :: "string pokemon list" where
  "example_rows =
     [\<lparr>name = ''charmander'', species_id = 4, height = ''0.6'', weight = ''8.5'',
       type_1 = ''fire'', type_2 = [], url_image = ''http://img/4.png'',
       generation_id = 1, evolves_from_species_id = []\<rparr>,
      \<lparr>name = ''charizard'', species_id = 6, height = ''1.7'', weight = ''90.5'',
       type_1 = ''fire'', type_2 = ''flying'', url_image = ''http://img/6.png'',
       generation_id = 1, evolves_from_species_id = ''5''\<rparr>,
      \<lparr>name = ''bulbasaur'', species_id = 1, height = ''0.7'', weight = ''6.9'',
       type_1 = ''grass'', type_2 = ''poison'', url_image = ''http://img/1.png'',
       generation_id = 1, evolves_from_species_id = []\<rparr>,
      \<lparr>name = ''charizard'', species_id = 6, height = ''1.7'', weight = ''90.5'',
       type_1 = ''fire'', type_2 = ''flying'', url_image = ''http://img/6b.png'',
       generation_id = 1, evolves_from_species_id = ''5''\<rparr>]"

definition loaded :: "(string, unit) cursor" where
  "loaded = \<lparr>pokemon_table = Some example_rows, results = []\<rparr>"

section \<open>Auxiliary facts\<close>

subsection \<open>Sequencing and the iteration in the queries\<close>

lemma and_then_Inr: "and_then r k = Inr v \<longleftrightarrow> (\<exists>x. r = Inr x \<and> k x = Inr v)"
  by (cases r) (simp_all add: and_then_def)

lemma and_then_Inl: "and_then r k = Inl e \<longleftrightarrow> (r = Inl e \<or> (\<exists>x. r = Inr x \<and> k x = Inl e))"
  by (cases r) (simp_all add: and_then_def)

lemma append_all_id: "append_all data = data"
proof -
  have "foldl (\<lambda>new_list element. new_list @ [element]) acc data = acc @ data" for acc
    by (induction data arbitrary: acc) simp_all
  then show ?thesis by (simp add: append_all_def)
qed

lemma set_foldl_append_new: "set (foldl append_new acc xs) = set acc \<union> set xs"
  by (induction xs arbitrary: acc) (auto simp: append_new_def)

lemma set_collect_types_from:
  "set (foldl (\<lambda>new_list types. foldl append_new new_list [fst types, snd types]) acc data)
     = set acc \<union> fst ` set data \<union> snd ` set data"
  by (induction data arbitrary: acc) (auto simp: append_new_def)

lemma set_collect_types: "set (collect_types data) = fst ` set data \<union> snd ` set data"
  using set_collect_types_from [of "[]" data] by (simp add: collect_types_def)

lemma table_exists_eq:
  "table_exists cur =
     (case pokemon_table cur of
        None \<Rightarrow> (Inr False, \<lparr>pokemon_table = None, results = []\<rparr>)
      | Some rows \<Rightarrow> (Inr (rows \<noteq> []), \<lparr>pokemon_table = Some rows, results = tl rows\<rparr>))"
  by (simp add: table_exists_def execute_select_def fetchone_def split: option.splits list.splits)

lemma get_pokemon_names_eq:
  "get_pokemon_names cur =
     (case pokemon_table cur of
        None \<Rightarrow> (Inl OperationalError, \<lparr>pokemon_table = None, results = []\<rparr>)
      | Some rows \<Rightarrow> (Inr (sort (map name rows)), \<lparr>pokemon_table = Some rows, results = []\<rparr>))"
  by (simp add: get_pokemon_names_def execute_select_def fetchall_def append_all_id
           split: option.splits)

lemma get_pokemon_ids_eq:
  "get_pokemon_ids cur =
     (case pokemon_table cur of
        None \<Rightarrow> (Inl OperationalError, \<lparr>pokemon_table = None, results = []\<rparr>)
      | Some rows \<Rightarrow>
          (Inr (sort (map species_id rows)), \<lparr>pokemon_table = Some rows, results = []\<rparr>))"
  by (simp add: get_pokemon_ids_def execute_select_def fetchall_def append_all_id
           split: option.splits)

lemma get_stats_by_name_eq:
  "get_stats_by_name nm cur =
     (case pokemon_table cur of
        None \<Rightarrow> (Inl OperationalError, \<lparr>pokemon_table = None, results = []\<rparr>)
      | Some rows \<Rightarrow>
          (getitem (filter (\<lambda>r. name r = nm) rows) 0,
           \<lparr>pokemon_table = Some rows, results = []\<rparr>))"
  by (simp add: get_stats_by_name_def execute_select_def fetchall_def split: option.splits)

lemma get_stats_by_id_eq:
  "get_stats_by_id sid cur =
     (case pokemon_table cur of
        None \<Rightarrow> (Inl OperationalError, \<lparr>pokemon_table = None, results = []\<rparr>)
      | Some rows \<Rightarrow>
          (getitem (filter (\<lambda>r. species_id r = sid) rows) 0,
           \<lparr>pokemon_table = Some rows, results = []\<rparr>))"
  by (simp add: get_stats_by_id_def execute_select_def fetchall_def split: option.splits)

lemma get_pokemon_types_eq:
  "get_pokemon_types cur =
     (case pokemon_table cur of
        None \<Rightarrow> (Inl OperationalError, \<lparr>pokemon_table = None, results = []\<rparr>)
      | Some rows \<Rightarrow>
          (Inr (sorted_list_of_set (type_1 ` set rows \<union> type_2 ` set rows)),
           \<lparr>pokemon_table = Some rows, results = []\<rparr>))"
proof -
  have "fst ` (\<lambda>r. (type_1 r, type_2 r)) ` set rows = type_1 ` set rows"
    and "snd ` (\<lambda>r. (type_1 r, type_2 r)) ` set rows = type_2 ` set rows"
    for rows :: "'a pokemon list"
    by (simp_all add: image_image)
  then show ?thesis
    by (simp add: get_pokemon_types_def execute_select_def fetchall_def unique_and_sort_def
          set_collect_types split: option.splits)
qed

lemma get_pokemon_by_type_eq:
  "get_pokemon_by_type t cur =
     (case pokemon_table cur of
        None \<Rightarrow> (Inl OperationalError, \<lparr>pokemon_table = None, results = []\<rparr>)
      | Some rows \<Rightarrow>
          (Inr (sorted_list_of_set (name ` {r \<in> set rows. type_1 r = t \<or> type_2 r = t})),
           \<lparr>pokemon_table = Some rows, results = []\<rparr>))"
  by (simp add: get_pokemon_by_type_def execute_select_def fetchall_def unique_and_sort_def
        append_all_id split: option.splits)

subsection \<open>The header\<close>

lemma index_Inr:
  "index xs x = Inr i \<longleftrightarrow> i < length xs \<and> xs ! i = x \<and> (\<forall>j<i. xs ! j \<noteq> x)"
proof (induction xs arbitrary: i)
  case Nil
  then show ?case by simp
next
  case (Cons y ys)
  show ?case
  proof (cases "y = x")
    case True
    then show ?thesis by (cases i) auto
  next
    case False
    show ?thesis
    proof (cases i)
      case 0
      with False show ?thesis by (auto simp: and_then_Inr)
    next
      case (Suc k)
      have "(\<forall>j<Suc k. (y # ys) ! j \<noteq> x) \<longleftrightarrow> (\<forall>j<k. ys ! j \<noteq> x)"
        using False by (auto simp: less_Suc_eq_0_disj)
      with False Suc Cons.IH [of k] show ?thesis by (simp add: and_then_Inr)
    qed
  qed
qed

lemma index_Inl: "index xs x = Inl e \<longleftrightarrow> x \<notin> set xs \<and> e = ValueError_not_in_list"
  by (induction xs) (auto simp: and_then_Inl)

lemma index_mem: "x \<in> set xs \<Longrightarrow> \<exists>i. index xs x = Inr i"
  by (cases "index xs x") (simp_all add: index_Inl)

lemma header_loop_Inr:
  "header_loop cs header m = Inr d \<Longrightarrow>
     (\<forall>c \<in> set cs. \<exists>i. index header c = Inr i \<and> d c = Some i) \<and> (\<forall>c. c \<notin> set cs \<longrightarrow> d c = m c)"
proof (induction cs arbitrary: m)
  case Nil
  then show ?case by simp
next
  case (Cons column cs)
  from Cons.prems obtain i where i: "index header column = Inr i"
    and rest: "header_loop cs header (m(column \<mapsto> i)) = Inr d"
    by (auto split: sum.splits)
  from Cons.IH [OF rest] have ih1: "\<forall>c \<in> set cs. \<exists>i. index header c = Inr i \<and> d c = Some i"
    and ih2: "\<forall>c. c \<notin> set cs \<longrightarrow> d c = (m(column \<mapsto> i)) c"
    by blast+
  have "\<exists>j. index header column = Inr j \<and> d column = Some j"
  proof (cases "column \<in> set cs")
    case True
    with ih1 show ?thesis by blast
  next
    case False
    with ih2 have "d column = Some i" by simp
    with i show ?thesis by blast
  qed
  moreover have "\<forall>c. c \<notin> set (column # cs) \<longrightarrow> d c = m c"
    using ih2 by auto
  ultimately show ?case using ih1 by auto
qed

lemma header_loop_Inl:
  "header_loop cs header m = Inl e \<Longrightarrow> e = ValueError_not_in_list \<and> (\<exists>c \<in> set cs. c \<notin> set header)"
  by (induction cs arbitrary: m) (auto split: sum.splits simp: index_Inl)

lemma header_loop_total:
  "set cs \<subseteq> set header \<Longrightarrow> \<exists>d. header_loop cs header m = Inr d"
  by (cases "header_loop cs header m") (auto dest: header_loop_Inl)

lemma header_loop_missing:
  "c \<in> set cs \<Longrightarrow> c \<notin> set header \<Longrightarrow> header_loop cs header m = Inl ValueError_not_in_list"
proof (cases "header_loop cs header m")
  case (Inl e)
  then show ?thesis by (auto dest: header_loop_Inl)
next
  case (Inr d)
  assume "c \<in> set cs" "c \<notin> set header"
  with header_loop_Inr [OF Inr] show ?thesis by (auto simp: index_Inr)
qed

subsection \<open>Rows and the load\<close>

lemma field_Inr:
  "field line d c = Inr v \<longleftrightarrow> (\<exists>i. d c = Some i \<and> i < length line \<and> v = line ! i)"
  by (auto simp: field_def and_then_Inr dict_getitem_def getitem_def split: option.splits)

lemma parse_line_fields:
  assumes "parse_line SEP py_float d l = Inr r"
  obtains line pokemon sid h w t1 t2 url gen evolves where
    "split (strip l) SEP = Inr line"
    "field line d ''pokemon'' = Inr pokemon" "name r = lower pokemon"
    "field line d ''species_id'' = Inr sid" "py_int sid = Inr (species_id r)"
    "field line d ''height'' = Inr h" "py_float h = Some (height r)"
    "field line d ''weight'' = Inr w" "py_float w = Some (weight r)"
    "field line d ''type_1'' = Inr t1" "type_1 r = lower t1"
    "field line d ''type_2'' = Inr t2" "type_2 r = lower t2"
    "field line d ''url_image'' = Inr url" "url_image r = lower url"
    "field line d ''generation_id'' = Inr gen" "py_int gen = Inr (generation_id r)"
    "field line d ''evolves_from_species_id'' = Inr evolves"
    "evolves_from_species_id r = lower evolves"
proof -
  from assms obtain line pokemon sid sidv h hv w wv t1 t2 url gen genv evolves where
    "split (strip l) SEP = Inr line"
    "field line d ''pokemon'' = Inr pokemon"
    "field line d ''species_id'' = Inr sid" "py_int sid = Inr sidv"
    "field line d ''height'' = Inr h" "float py_float h = Inr hv"
    "field line d ''weight'' = Inr w" "float py_float w = Inr wv"
    "field line d ''type_1'' = Inr t1"
    "field line d ''type_2'' = Inr t2"
    "field line d ''url_image'' = Inr url"
    "field line d ''generation_id'' = Inr gen" "py_int gen = Inr genv"
    "field line d ''evolves_from_species_id'' = Inr evolves"
    and r: "r = \<lparr>name = lower pokemon, species_id = sidv, height = hv, weight = wv,
            type_1 = lower t1, type_2 = lower t2, url_image = lower url,
            generation_id = genv, evolves_from_species_id = lower evolves\<rparr>"
    unfolding parse_line_def and_then_Inr by (elim exE conjE) (simp only: sum.inject)
  moreover have "py_float h = Some hv" "py_float w = Some wv"
    using \<open>float py_float h = Inr hv\<close> \<open>float py_float w = Inr wv\<close>
    by (simp_all add: float_def split: option.splits)
  ultimately show ?thesis
    using that [of line pokemon sid h w t1 t2 url gen evolves] by (simp add: r)
qed

lemma lower_char_not_upper: "\<not> isupper (lower_char c)"
  unfolding isupper_def lower_char_def by (auto split: option.splits if_splits)

lemma lower_char_fixed: "\<not> isupper c \<Longrightarrow> lower_char c = c"
  unfolding isupper_def lower_char_def by (auto split: option.splits if_splits)

lemma lower_lower: "lower (lower s) = lower s"
  by (simp add: lower_def lower_char_fixed lower_char_not_upper)

lemma is_lower_iff: "is_lower s \<longleftrightarrow> (\<forall>c \<in> set s. \<not> isupper c)"
proof
  assume "is_lower s"
  then have "map lower_char s = s" by (simp add: is_lower_def lower_def)
  then have "\<forall>c \<in> set s. lower_char c = c" by (simp add: map_idI map_eq_conv [of lower_char s id, simplified])
  then show "\<forall>c \<in> set s. \<not> isupper c" using lower_char_not_upper by metis
next
  assume "\<forall>c \<in> set s. \<not> isupper c"
  then show "is_lower s" by (simp add: is_lower_def lower_def lower_char_fixed map_idI)
qed

lemma execute_insert_overflow:
  "pokemon_table cur = Some rows0 \<Longrightarrow> \<not> (int64 (species_id row) \<and> int64 (generation_id row)) \<Longrightarrow>
     execute_insert row cur = (Inl OverflowError, \<lparr>pokemon_table = Some rows0, results = []\<rparr>)"
  by (auto simp: execute_insert_def)

lemma list_all2_right_witness:
  "list_all2 P xs ys \<Longrightarrow> y \<in> set ys \<Longrightarrow> \<exists>x \<in> set xs. P x y"
  by (induction rule: list_all2_induct) auto

lemma insert_lines_table:
  assumes "pokemon_table cur = Some rows0"
  shows "\<exists>n rows. n \<le> length ls \<and>
           list_all2 (\<lambda>l r. parse_line SEP py_float d l = Inr r) (take n ls) rows \<and>
           pokemon_table (snd (insert_lines SEP py_float d ls cur)) = Some (rows0 @ rows) \<and>
           (fst (insert_lines SEP py_float d ls cur) = Inr () \<longrightarrow> n = length ls)"
  using assms
proof (induction ls arbitrary: cur rows0)
  case Nil
  then show ?case by simp
next
  case (Cons l ls)
  show ?case
  proof (cases "parse_line SEP py_float d l")
    case (Inl e)
    with Cons.prems show ?thesis by (intro exI [of _ 0]) simp
  next
    case (Inr row)
    show ?thesis
    proof (cases "int64 (species_id row) \<and> int64 (generation_id row)")
      case False
      with Inr Cons.prems show ?thesis
        by (intro exI [of _ 0]) (simp add: execute_insert_overflow)
    next
      case True
      define cur1 :: "('a, 'b) cursor" where "cur1 = \<lparr>pokemon_table = Some (rows0 @ [row]), results = []\<rparr>"
      have step: "insert_lines SEP py_float d (l # ls) cur = insert_lines SEP py_float d ls cur1"
        using Inr True Cons.prems by (simp add: execute_insert_def cur1_def)
      have "pokemon_table cur1 = Some (rows0 @ [row])" by (simp add: cur1_def)
      from Cons.IH [OF this] obtain n rows where
        n: "n \<le> length ls"
        and rows: "list_all2 (\<lambda>l r. parse_line SEP py_float d l = Inr r) (take n ls) rows"
        and tbl: "pokemon_table (snd (insert_lines SEP py_float d ls cur1)) = Some ((rows0 @ [row]) @ rows)"
        and ok: "fst (insert_lines SEP py_float d ls cur1) = Inr () \<longrightarrow> n = length ls"
        by blast
      show ?thesis
        using n rows tbl ok Inr unfolding step
        by (intro exI [of _ "Suc n"] exI [of _ "row # rows"]) simp
    qed
  qed
qed

lemma create_table_eq:
  "create_table SEP py_float f cur =
     (case parse_header SEP f of
        (Inl e, f1) \<Rightarrow> (Inl e, \<lparr>pokemon_table = Some [], results = []\<rparr>)
      | (Inr header_dict, f1) \<Rightarrow>
          insert_lines SEP py_float header_dict f1 \<lparr>pokemon_table = Some [], results = []\<rparr>)"
  by (simp add: create_table_def execute_drop_table_def execute_create_table_def)

lemma create_table_rows:
  "\<exists>rows. pokemon_table (snd (create_table SEP py_float f cur)) = Some rows \<and>
     (\<forall>r \<in> set rows. \<exists>d l. parse_line SEP py_float d l = Inr r)"
proof (cases "parse_header SEP f")
  case (Pair res f1)
  show ?thesis
  proof (cases res)
    case (Inl e)
    with Pair show ?thesis by (simp add: create_table_eq)
  next
    case (Inr d)
    define cur2 :: "('a, 'b) cursor" where "cur2 = \<lparr>pokemon_table = Some [], results = []\<rparr>"
    have "pokemon_table cur2 = Some []" by (simp add: cur2_def)
    from insert_lines_table [OF this, of f1 SEP py_float d] obtain n rows where
      rows: "list_all2 (\<lambda>l r. parse_line SEP py_float d l = Inr r) (take n f1) rows"
      and tbl: "pokemon_table (snd (insert_lines SEP py_float d f1 cur2)) = Some rows"
      by auto
    have "\<forall>r \<in> set rows. \<exists>l. parse_line SEP py_float d l = Inr r"
      using rows by (blast dest: list_all2_right_witness)
    then have "\<forall>r \<in> set rows. \<exists>d l. parse_line SEP py_float d l = Inr r" by blast
    with tbl Pair Inr show ?thesis by (simp add: create_table_eq cur2_def)
  qed
qed

lemma parse_header_eq:
  "parse_header SEP f =
     (case split (strip (fst (readline f))) SEP of
        Inl e \<Rightarrow> (Inl e, snd (readline f))
      | Inr header \<Rightarrow> (header_loop columns header Map.empty, snd (readline f)))"
  by (simp add: parse_header_def split: prod.splits sum.splits)

lemma header_loop_dom:
  "header_loop cs header Map.empty = Inr d \<Longrightarrow> dom d = set cs"
proof -
  assume ok: "header_loop cs header Map.empty = Inr d"
  from header_loop_Inr [OF ok] have "\<forall>c \<in> set cs. d c \<noteq> None" "\<forall>c. c \<notin> set cs \<longrightarrow> d c = None"
    by auto
  then show ?thesis by (auto simp: dom_def)
qed

lemma split_Inr: "split s sep = Inr xs \<longleftrightarrow> sep \<noteq> [] \<and> xs = split_at sep s"
  by (auto simp: split_def)

lemma py_int_empty: "py_int [] = Inl ValueError_int"
  by (simp add: py_int_def strip_def digits_def)

lemma parse_line_not_blank:
  assumes "parse_line SEP py_float d l = Inr r"
  shows "strip l \<noteq> []"
proof
  assume blank: "strip l = []"
  from assms obtain line sid where line: "split (strip l) SEP = Inr line"
    and sid: "field line d ''species_id'' = Inr sid" and int: "py_int sid = Inr (species_id r)"
    by (rule parse_line_fields)
  from line blank have "line = [[]]" by (simp add: split_Inr)
  with sid have "sid = []" by (auto simp: field_Inr)
  with int show False by (simp add: py_int_empty)
qed

lemma parse_line_name:
  assumes "parse_line SEP py_float d l = Inr r" and "d ''pokemon'' = Some p"
  shows "p < length (split_at SEP (strip l)) \<and> name r = lower (split_at SEP (strip l) ! p)"
proof -
  from assms(1) obtain line pokemon where "split (strip l) SEP = Inr line"
    and "field line d ''pokemon'' = Inr pokemon" and "name r = lower pokemon"
    by (rule parse_line_fields)
  with assms(2) show ?thesis by (auto simp: split_Inr field_Inr)
qed

lemma create_table_success:
  assumes "fst (create_table SEP py_float f cur) = Inr ()"
  obtains header d rows where
    "split (strip (fst (readline f))) SEP = Inr header"
    "header_loop columns header Map.empty = Inr d"
    "list_all2 (\<lambda>l r. parse_line SEP py_float d l = Inr r) (snd (readline f)) rows"
    "pokemon_table (snd (create_table SEP py_float f cur)) = Some rows"
proof -
  from assms obtain header where header: "split (strip (fst (readline f))) SEP = Inr header"
    by (cases "split (strip (fst (readline f))) SEP")
       (simp_all add: create_table_eq parse_header_eq)
  with assms obtain d where d: "header_loop columns header Map.empty = Inr d"
    by (cases "header_loop columns header Map.empty")
       (simp_all add: create_table_eq parse_header_eq)
  define cur2 :: "('a, 'b) cursor" where "cur2 = \<lparr>pokemon_table = Some [], results = []\<rparr>"
  have run: "create_table SEP py_float f cur = insert_lines SEP py_float d (snd (readline f)) cur2"
    using header d by (simp add: create_table_eq parse_header_eq cur2_def)
  have "pokemon_table cur2 = Some []" by (simp add: cur2_def)
  from insert_lines_table [OF this, of "snd (readline f)" SEP py_float d] obtain n rows where
    "list_all2 (\<lambda>l r. parse_line SEP py_float d l = Inr r) (take n (snd (readline f))) rows"
    "pokemon_table (snd (insert_lines SEP py_float d (snd (readline f)) cur2)) = Some rows"
    "fst (insert_lines SEP py_float d (snd (readline f)) cur2) = Inr () \<longrightarrow>
       n = length (snd (readline f))"
    by auto
  with assms run have
    "list_all2 (\<lambda>l r. parse_line SEP py_float d l = Inr r) (snd (readline f)) rows"
    "pokemon_table (snd (create_table SEP py_float f cur)) = Some rows"
    by simp_all
  with header d show ?thesis by (rule that)
qed

lemma is_lower_lower: "is_lower (lower s)"
  by (simp add: is_lower_def lower_lower)

lemma parse_line_lower_case:
  assumes "parse_line SEP py_float d l = Inr r"
  shows "lower_case_row r"
  using assms by (rule parse_line_fields) (simp add: lower_case_row_def is_lower_lower)

lemma create_table_lower_case:
  "\<exists>rows. pokemon_table (snd (create_table SEP py_float f cur)) = Some rows \<and>
     (\<forall>r \<in> set rows. lower_case_row r)"
  using create_table_rows [of SEP py_float f cur] by (blast intro: parse_line_lower_case)

lemma create_table_any_cursor:
  "create_table SEP py_float f cur = create_table SEP py_float f cur'"
  by (simp add: create_table_eq)

lemma perform_read:
  "(\<forall>f. operation \<noteq> Load f) \<Longrightarrow> perform SEP py_float tbl operation = tbl"
  by (cases operation)
     (simp_all add: table_after_def table_exists_eq get_pokemon_names_eq get_pokemon_ids_eq
        get_stats_by_name_eq get_stats_by_id_eq get_pokemon_types_eq get_pokemon_by_type_eq
        split: option.splits)

lemma perform_lower_case:
  "lower_case_table tbl \<Longrightarrow> lower_case_table (perform SEP py_float tbl operation)"
proof (cases "\<forall>f. operation \<noteq> Load f")
  case True
  assume "lower_case_table tbl"
  then show ?thesis by (simp add: perform_read [OF True])
next
  case False
  then obtain f where "operation = Load f" by blast
  then show ?thesis
    using create_table_lower_case
      [of SEP py_float f "\<lparr>pokemon_table = tbl, results = [] :: unit list\<rparr>"]
    by (auto simp: table_after_def lower_case_table_def list_all_iff)
qed

lemma foldl_perform_lower_case:
  "lower_case_table tbl \<Longrightarrow> lower_case_table (foldl (perform SEP py_float) tbl ops)"
  by (induction ops arbitrary: tbl) (simp_all add: perform_lower_case)

lemma scenario_header:
  "parse_header '','' scenario_csv =
     (header_loop columns
        [''species_id'', ''pokemon'', ''height'', ''weight'', ''type_1'', ''type_2'',
         ''url_image'', ''generation_id'', ''evolves_from_species_id''] Map.empty,
      [''1,Bulbasaur,0.7,6.9,Grass,Poison,http://x,1,'' @ [CHR 0x0A]])"
proof -
  have "split (strip (fst (readline scenario_csv))) '','' =
     Inr [''species_id'', ''pokemon'', ''height'', ''weight'', ''type_1'', ''type_2'',
         ''url_image'', ''generation_id'', ''evolves_from_species_id'']"
    by code_simp
  moreover have "snd (readline scenario_csv) = [''1,Bulbasaur,0.7,6.9,Grass,Poison,http://x,1,'' @ [CHR 0x0A]]"
    by (simp add: readline_def scenario_csv_def)
  ultimately show ?thesis by (simp add: parse_header_eq)
qed

lemma scenario_row:
  assumes d: "header_loop columns
        [''species_id'', ''pokemon'', ''height'', ''weight'', ''type_1'', ''type_2'',
         ''url_image'', ''generation_id'', ''evolves_from_species_id''] Map.empty = Inr d"
    and h: "py_float ''0.7'' = Some h" and w: "py_float ''6.9'' = Some w"
  shows "parse_line '','' py_float d (''1,Bulbasaur,0.7,6.9,Grass,Poison,http://x,1,'' @ [CHR 0x0A]) =
     Inr \<lparr>name = ''bulbasaur'', species_id = 1, height = h, weight = w,
          type_1 = ''grass'', type_2 = ''poison'', url_image = ''http://x'',
          generation_id = 1, evolves_from_species_id = []\<rparr>"
proof -
  let ?header = "[''species_id'', ''pokemon'', ''height'', ''weight'', ''type_1'', ''type_2'',
         ''url_image'', ''generation_id'', ''evolves_from_species_id'']"
  let ?line = "[''1'', ''Bulbasaur'', ''0.7'', ''6.9'', ''Grass'', ''Poison'', ''http://x'', ''1'', []]"
  have line: "split (strip (''1,Bulbasaur,0.7,6.9,Grass,Poison,http://x,1,'' @ [CHR 0x0A])) '','' = Inr ?line"
    by code_simp
  have pos: "\<forall>c \<in> set columns. \<exists>i. index ?header c = Inr i \<and> d c = Some i"
    using header_loop_Inr [OF d] by blast
  have idx: "index ?header ''pokemon'' = Inr 1" "index ?header ''species_id'' = Inr 0"
    "index ?header ''height'' = Inr 2" "index ?header ''weight'' = Inr 3"
    "index ?header ''type_1'' = Inr 4" "index ?header ''type_2'' = Inr 5"
    "index ?header ''url_image'' = Inr 6" "index ?header ''generation_id'' = Inr 7"
    "index ?header ''evolves_from_species_id'' = Inr 8"
    by code_simp+
  have dv: "d ''pokemon'' = Some 1" "d ''species_id'' = Some 0" "d ''height'' = Some 2"
    "d ''weight'' = Some 3" "d ''type_1'' = Some 4" "d ''type_2'' = Some 5"
    "d ''url_image'' = Some 6" "d ''generation_id'' = Some 7"
    "d ''evolves_from_species_id'' = Some 8"
    using pos idx by (auto simp: columns_def)
  have fields: "field ?line d ''pokemon'' = Inr ''Bulbasaur''" "field ?line d ''species_id'' = Inr ''1''"
    "field ?line d ''height'' = Inr ''0.7''" "field ?line d ''weight'' = Inr ''6.9''"
    "field ?line d ''type_1'' = Inr ''Grass''" "field ?line d ''type_2'' = Inr ''Poison''"
    "field ?line d ''url_image'' = Inr ''http://x''" "field ?line d ''generation_id'' = Inr ''1''"
    "field ?line d ''evolves_from_species_id'' = Inr []"
    by (simp_all add: field_def and_then_def dict_getitem_def getitem_def dv)
  have conv: "py_int ''1'' = Inr 1" "lower ''Bulbasaur'' = ''bulbasaur''" "lower ''Grass'' = ''grass''"
    "lower ''Poison'' = ''poison''" "lower ''http://x'' = ''http://x''" "lower [] = []"
    by code_simp+
  have fl: "float py_float ''0.7'' = Inr h" "float py_float ''6.9'' = Inr w"
    using h w by (simp_all add: float_def)
  show ?thesis
    unfolding parse_line_def line
    by (simp add: and_then_def fields conv fl)
qed

section \<open>The properties\<close>

subsection \<open>table_exists\<close>

text \<open>
  C3. \<open>table_exists\<close> never raises. It returns \<open>True\<close> exactly when the table
  \<open>pokemon\<close> exists and has at least one row; on a database without the table, so on
  one that was never loaded, it returns \<open>False\<close>.
\<close>

theorem table_exists_iff_rows:
  "fst (table_exists cur) = Inr (\<exists>rows. pokemon_table cur = Some rows \<and> rows \<noteq> []) \<and>
   fst (table_exists \<lparr>pokemon_table = None, results = pending\<rparr>) = Inr False"
  by (simp add: table_exists_eq split: option.splits)

subsection \<open>The queries leave the table alone\<close>

text \<open>
  C10. Each of the seven reading functions leaves the table as it found it, whether it
  returns or raises; what changes is only what the cursor holds.
\<close>

theorem reads_leave_table_unchanged:
  "pokemon_table (snd (table_exists cur)) = pokemon_table cur \<and>
   pokemon_table (snd (get_pokemon_names cur)) = pokemon_table cur \<and>
   pokemon_table (snd (get_pokemon_ids cur)) = pokemon_table cur \<and>
   pokemon_table (snd (get_stats_by_name nm cur)) = pokemon_table cur \<and>
   pokemon_table (snd (get_stats_by_id sid cur)) = pokemon_table cur \<and>
   pokemon_table (snd (get_pokemon_types cur)) = pokemon_table cur \<and>
   pokemon_table (snd (get_pokemon_by_type t cur)) = pokemon_table cur"
  by (simp add: table_exists_eq get_pokemon_names_eq get_pokemon_ids_eq get_stats_by_name_eq
        get_stats_by_id_eq get_pokemon_types_eq get_pokemon_by_type_eq split: option.splits)

subsection \<open>get_stats_by_name\<close>

text \<open>
  C2, as stated, speaks of every state of the store. On a database without the table
  no row matches any name, and \<open>get_stats_by_name\<close> raises
  \<open>sqlite3.OperationalError\<close> from \<open>cur.execute\<close>, not the IndexError of \<open>data[0]\<close>
  that the specification calls NotFoundError.
\<close>

theorem get_stats_by_name_without_table:
  "pokemon_table fresh = None \<and>
   fst (get_stats_by_name ''bulbasaur'' fresh) = Inl OperationalError \<and>
   fst (get_stats_by_name ''bulbasaur'' fresh) \<noteq> Inl IndexError"
  by (simp add: get_stats_by_name_eq fresh_def)

text \<open>
  C2, amended: on a database whose table exists, \<open>get_stats_by_name\<close> raises IndexError
  (NotFoundError) when no row has the name, and returns a row of the table with that name
  when there is one.
\<close>

theorem get_stats_by_name_lookup:
  assumes "pokemon_table cur = Some rows"
  shows "((\<forall>r \<in> set rows. name r \<noteq> nm) \<longrightarrow> fst (get_stats_by_name nm cur) = Inl IndexError) \<and>
         ((\<exists>r \<in> set rows. name r = nm) \<longrightarrow>
            (\<exists>r \<in> set rows. name r = nm \<and> fst (get_stats_by_name nm cur) = Inr r))"
proof (cases "filter (\<lambda>r. name r = nm) rows")
  case Nil
  then have "\<forall>r \<in> set rows. name r \<noteq> nm"
    by (simp add: filter_empty_conv)
  with Nil assms show ?thesis
    by (simp add: get_stats_by_name_eq getitem_def)
next
  case (Cons r rs)
  then have "r \<in> set (filter (\<lambda>r. name r = nm) rows)" by simp
  then have "r \<in> set rows" "name r = nm" by simp_all
  moreover have "fst (get_stats_by_name nm cur) = Inr r"
    using Cons assms by (simp add: get_stats_by_name_eq getitem_def)
  ultimately show ?thesis by blast
qed

theorem get_stats_by_name_lookup_witness:
  "pokemon_table loaded = Some example_rows \<and>
   fst (get_stats_by_name ''mew'' loaded) = Inl IndexError \<and>
   (\<exists>r \<in> set example_rows. name r = ''charizard'' \<and>
      fst (get_stats_by_name ''charizard'' loaded) = Inr r)"
proof -
  have tbl: "pokemon_table loaded = Some example_rows"
    by (simp add: loaded_def)
  have absent: "\<forall>r \<in> set example_rows. name r \<noteq> ''mew''"
    by (simp add: example_rows_def)
  have present: "\<exists>r \<in> set example_rows. name r = ''charizard''"
    by (simp add: example_rows_def)
  from get_stats_by_name_lookup [OF tbl, of "''mew''"] absent
  have "fst (get_stats_by_name ''mew'' loaded) = Inl IndexError" by blast
  moreover from get_stats_by_name_lookup [OF tbl, of "''charizard''"] present
  have "\<exists>r \<in> set example_rows. name r = ''charizard'' \<and>
          fst (get_stats_by_name ''charizard'' loaded) = Inr r" by blast
  ultimately show ?thesis using tbl by blast
qed

subsection \<open>get_pokemon_types\<close>

text \<open>
  C5, as stated, speaks of every state of the store. On a database without the table
  \<open>get_pokemon_types\<close> returns no list: it raises \<open>sqlite3.OperationalError\<close>.
\<close>

theorem get_pokemon_types_without_table:
  "pokemon_table fresh = None \<and> fst (get_pokemon_types fresh) = Inl OperationalError"
  by (simp add: get_pokemon_types_eq fresh_def)

text \<open>
  C5, amended: on a database whose table exists, \<open>get_pokemon_types\<close> returns a list in
  ascending order, without duplicates, whose elements are exactly the values that occur as
  \<open>type_1\<close> or \<open>type_2\<close> of a row (the empty string among them when a row has it).
\<close>

theorem get_pokemon_types_union:
  assumes "pokemon_table cur = Some rows"
  shows "\<exists>ts. fst (get_pokemon_types cur) = Inr ts \<and> sorted ts \<and> distinct ts \<and>
           set ts = type_1 ` set rows \<union> type_2 ` set rows"
  using assms by (simp add: get_pokemon_types_eq)

theorem get_pokemon_types_union_witness:
  "pokemon_table loaded = Some example_rows \<and>
   (\<exists>ts. fst (get_pokemon_types loaded) = Inr ts \<and> sorted ts \<and> distinct ts \<and>
      set ts = type_1 ` set example_rows \<union> type_2 ` set example_rows) \<and>
   fst (get_pokemon_types loaded) = Inr ['''', ''fire'', ''flying'', ''grass'', ''poison'']"
proof -
  have tbl: "pokemon_table loaded = Some example_rows"
    by (simp add: loaded_def)
  have "fst (get_pokemon_types loaded) = Inr ['''', ''fire'', ''flying'', ''grass'', ''poison'']"
    by code_simp
  with get_pokemon_types_union [OF tbl] tbl show ?thesis by blast
qed

subsection \<open>get_pokemon_by_type\<close>

text \<open>
  C6, as stated, speaks of every state of the store. On a database without the table no
  row matches, and \<open>get_pokemon_by_type\<close> does not return the empty list: it raises
  \<open>sqlite3.OperationalError\<close>.
\<close>

theorem get_pokemon_by_type_without_table:
  "pokemon_table fresh = None \<and> fst (get_pokemon_by_type ''fire'' fresh) = Inl OperationalError \<and>
   fst (get_pokemon_by_type ''fire'' fresh) \<noteq> Inr []"
  by (simp add: get_pokemon_by_type_eq fresh_def)

text \<open>
  C6, amended: on a database whose table exists, \<open>get_pokemon_by_type t\<close> returns a
  list in ascending order, without duplicates, whose elements are exactly the names of the
  rows with \<open>type_1 = t\<close> or \<open>type_2 = t\<close>; it is the empty list when no row matches.
\<close>

theorem get_pokemon_by_type_names:
  assumes "pokemon_table cur = Some rows"
  shows "\<exists>ns. fst (get_pokemon_by_type t cur) = Inr ns \<and> sorted ns \<and> distinct ns \<and>
           set ns = name ` {r \<in> set rows. type_1 r = t \<or> type_2 r = t} \<and>
           ((\<forall>r \<in> set rows. type_1 r \<noteq> t \<and> type_2 r \<noteq> t) \<longrightarrow> ns = [])"
proof -
  let ?S = "name ` {r \<in> set rows. type_1 r = t \<or> type_2 r = t}"
  have "(\<forall>r \<in> set rows. type_1 r \<noteq> t \<and> type_2 r \<noteq> t) \<longrightarrow> ?S = {}" by auto
  then have "(\<forall>r \<in> set rows. type_1 r \<noteq> t \<and> type_2 r \<noteq> t) \<longrightarrow> sorted_list_of_set ?S = []"
    by auto
  moreover have "fst (get_pokemon_by_type t cur) = Inr (sorted_list_of_set ?S)"
    using assms by (simp add: get_pokemon_by_type_eq)
  moreover have "sorted (sorted_list_of_set ?S)" "distinct (sorted_list_of_set ?S)"
    "set (sorted_list_of_set ?S) = ?S"
    by simp_all
  ultimately show ?thesis by blast
qed

theorem get_pokemon_by_type_names_witness:
  "pokemon_table loaded = Some example_rows \<and>
   fst (get_pokemon_by_type ''fire'' loaded) = Inr [''charizard'', ''charmander''] \<and>
   fst (get_pokemon_by_type ''ice'' loaded) = Inr []"
proof -
  have tbl: "pokemon_table loaded = Some example_rows"
    by (simp add: loaded_def)
  have fire: "fst (get_pokemon_by_type ''fire'' loaded) = Inr [''charizard'', ''charmander'']"
    by code_simp
  have "\<forall>r \<in> set example_rows. type_1 r \<noteq> ''ice'' \<and> type_2 r \<noteq> ''ice''"
    by (simp add: example_rows_def)
  with get_pokemon_by_type_names [OF tbl, of "''ice''"]
  have "fst (get_pokemon_by_type ''ice'' loaded) = Inr []" by auto
  with tbl fire show ?thesis by blast
qed

subsection \<open>parse_header\<close>

text \<open>
  C7. Let \<open>header\<close> be the fields of the first line of the CSV file. When one of the nine
  column names is not among them, \<open>parse_header\<close> and with it \<open>create_table\<close> raise the
  ValueError of \<open>header.index\<close> (the SchemaError of the specification). When all nine
  are among them, in any order and whatever else the header holds, \<open>parse_header\<close>
  returns a dict whose keys are the nine names, each mapped to the position of its first
  occurrence in the header.
\<close>

theorem parse_header_columns:
  assumes "split (strip (fst (readline f))) SEP = Inr header"
  shows "((\<exists>c \<in> set columns. c \<notin> set header) \<longrightarrow>
            fst (parse_header SEP f) = Inl ValueError_not_in_list \<and>
            fst (create_table SEP py_float f cur) = Inl ValueError_not_in_list) \<and>
         (set columns \<subseteq> set header \<longrightarrow>
            (\<exists>d. fst (parse_header SEP f) = Inr d \<and> dom d = set columns \<and>
               (\<forall>c \<in> set columns. \<exists>i. d c = Some i \<and> i < length header \<and> header ! i = c \<and>
                  (\<forall>j<i. header ! j \<noteq> c))))"
proof (intro conjI impI)
  assume "\<exists>c \<in> set columns. c \<notin> set header"
  then have "header_loop columns header Map.empty = Inl ValueError_not_in_list"
    by (blast intro: header_loop_missing)
  with assms show "fst (parse_header SEP f) = Inl ValueError_not_in_list"
    and "fst (create_table SEP py_float f cur) = Inl ValueError_not_in_list"
    by (simp_all add: parse_header_eq create_table_eq)
next
  assume "set columns \<subseteq> set header"
  then obtain d where d: "header_loop columns header Map.empty = Inr d"
    using header_loop_total by blast
  from header_loop_Inr [OF d]
  have "\<forall>c \<in> set columns. \<exists>i. d c = Some i \<and> i < length header \<and> header ! i = c \<and>
          (\<forall>j<i. header ! j \<noteq> c)"
    by (simp add: index_Inr) blast
  moreover have "fst (parse_header SEP f) = Inr d"
    using assms d by (simp add: parse_header_eq)
  ultimately show "\<exists>d. fst (parse_header SEP f) = Inr d \<and> dom d = set columns \<and>
      (\<forall>c \<in> set columns. \<exists>i. d c = Some i \<and> i < length header \<and> header ! i = c \<and>
         (\<forall>j<i. header ! j \<noteq> c))"
    using header_loop_dom [OF d] by blast
qed

theorem parse_header_columns_witness:
  "split (strip (fst (readline example_csv))) '','' =
     Inr [''pokemon'', ''species_id'', ''height'', ''weight'', ''type_1'', ''type_2'',
          ''url_image'', ''generation_id'', ''evolves_from_species_id'', ''note''] \<and>
   (\<exists>d. fst (parse_header '','' example_csv) = Inr d \<and> dom d = set columns \<and>
      d ''pokemon'' = Some 0 \<and> d ''evolves_from_species_id'' = Some 8) \<and>
   split (strip (fst (readline [''pokemon;species_id'' @ [CHR 0x0A]]))) '','' =
     Inr [''pokemon;species_id''] \<and>
   fst (create_table '','' example_float [''pokemon;species_id'' @ [CHR 0x0A]] fresh) =
     Inl ValueError_not_in_list"
proof -
  let ?header = "[''pokemon'', ''species_id'', ''height'', ''weight'', ''type_1'', ''type_2'',
          ''url_image'', ''generation_id'', ''evolves_from_species_id'', ''note'']"
  have h1: "split (strip (fst (readline example_csv))) '','' = Inr ?header"
    by code_simp
  have all: "set columns \<subseteq> set ?header"
    by (simp add: columns_def)
  from parse_header_columns [OF h1, of example_float fresh] all
  obtain d where d: "fst (parse_header '','' example_csv) = Inr d" "dom d = set columns"
    and pos: "\<forall>c \<in> set columns. \<exists>i. d c = Some i \<and> i < length ?header \<and> ?header ! i = c \<and>
                  (\<forall>j<i. ?header ! j \<noteq> c)"
    by blast
  from pos obtain i where i: "d ''pokemon'' = Some i" "i < length ?header" "?header ! i = ''pokemon''"
    "\<forall>j<i. ?header ! j \<noteq> ''pokemon''"
    by (auto simp: columns_def)
  have "i = 0"
  proof (rule ccontr)
    assume "i \<noteq> 0"
    then have "0 < i" by simp
    with i(4) show False by auto
  qed
  from pos obtain k where k: "d ''evolves_from_species_id'' = Some k" "k < length ?header"
    "?header ! k = ''evolves_from_species_id''"
    by (auto simp: columns_def)
  have "k = 8"
    using k(2,3) by (simp add: less_Suc_eq_0_disj nth_Cons' split: if_splits)
  have h2: "split (strip (fst (readline [''pokemon;species_id'' @ [CHR 0x0A]]))) '','' =
     Inr [''pokemon;species_id'']"
    by code_simp
  have missing: "\<exists>c \<in> set columns. c \<notin> set [''pokemon;species_id'']"
    by (simp add: columns_def)
  from parse_header_columns [OF h2, of example_float fresh] missing
  have "fst (create_table '','' example_float [''pokemon;species_id'' @ [CHR 0x0A]] fresh) =
     Inl ValueError_not_in_list"
    by blast
  with h1 h2 d i(1) k(1) \<open>i = 0\<close> \<open>k = 8\<close> show ?thesis by blast
qed

subsection \<open>get_pokemon_names after create_table\<close>

text \<open>
  C1. Let \<open>create_table\<close> return without raising on a CSV file (the file is then valid).
  Let \<open>header\<close> be the fields of its first line and \<open>p\<close> the position of \<open>pokemon\<close> among
  them; the data rows are the lines after the first. Then every data row is non-empty and
  has a field at position \<open>p\<close>, and \<open>get_pokemon_names\<close> on the loaded database returns a
  list in ascending order whose elements, counted with their repetitions, are the names of
  the data rows, each in the lower case in which it was stored. Its length is the number of
  data rows, which is the number of non-empty ones.
\<close>

theorem get_pokemon_names_after_load:
  assumes "fst (create_table SEP py_float f cur) = Inr ()"
  shows "\<exists>header p names.
           split (strip (fst (readline f))) SEP = Inr header \<and>
           index header ''pokemon'' = Inr p \<and>
           (\<forall>l \<in> set (snd (readline f)). strip l \<noteq> [] \<and> p < length (split_at SEP (strip l))) \<and>
           fst (get_pokemon_names (snd (create_table SEP py_float f cur))) = Inr names \<and>
           sorted names \<and>
           mset names = mset (map (\<lambda>l. lower (split_at SEP (strip l) ! p)) (snd (readline f))) \<and>
           length names = length (snd (readline f)) \<and>
           length names = length (filter (\<lambda>l. strip l \<noteq> []) (snd (readline f)))"
proof -
  let ?rows = "snd (readline f)"
  from assms obtain header d rows where
    header: "split (strip (fst (readline f))) SEP = Inr header"
    and d: "header_loop columns header Map.empty = Inr d"
    and rows: "list_all2 (\<lambda>l r. parse_line SEP py_float d l = Inr r) ?rows rows"
    and tbl: "pokemon_table (snd (create_table SEP py_float f cur)) = Some rows"
    by (rule create_table_success)
  from header_loop_Inr [OF d] obtain p where p: "index header ''pokemon'' = Inr p"
    and dp: "d ''pokemon'' = Some p"
    by (auto simp: columns_def)
  let ?name = "\<lambda>l. lower (split_at SEP (strip l) ! p)"
  have each: "list_all2 (\<lambda>l r. strip l \<noteq> [] \<and> p < length (split_at SEP (strip l)) \<and> name r = ?name l)
                ?rows rows"
    using rows
  proof (rule list_all2_mono)
    fix l r
    assume parsed: "parse_line SEP py_float d l = Inr r"
    from parse_line_not_blank [OF parsed] parse_line_name [of SEP py_float d l r p, OF parsed dp]
    show "strip l \<noteq> [] \<and> p < length (split_at SEP (strip l)) \<and> name r = ?name l"
      by simp
  qed
  have ok: "\<forall>l \<in> set ?rows. strip l \<noteq> [] \<and> p < length (split_at SEP (strip l))"
    using each by (induction rule: list_all2_induct) auto
  have names: "map name rows = map ?name ?rows"
    using each by (induction rule: list_all2_induct) auto
  have len: "length rows = length ?rows"
    using rows by (simp add: list_all2_lengthD)
  have nonblank: "filter (\<lambda>l. strip l \<noteq> []) ?rows = ?rows"
    using ok by (simp add: filter_id_conv)
  have res: "fst (get_pokemon_names (snd (create_table SEP py_float f cur))) = Inr (sort (map name rows))"
    using tbl by (simp add: get_pokemon_names_eq)
  have "sorted (sort (map name rows))"
    and "mset (sort (map name rows)) = mset (map ?name ?rows)"
    and "length (sort (map name rows)) = length ?rows"
    and "length (sort (map name rows)) = length (filter (\<lambda>l. strip l \<noteq> []) ?rows)"
    using names len nonblank by simp_all
  with header p ok res show ?thesis by blast
qed

theorem get_pokemon_names_after_load_witness:
  "fst (create_table '','' example_float example_csv fresh) = Inr () \<and>
   index [''pokemon'', ''species_id'', ''height'', ''weight'', ''type_1'', ''type_2'',
          ''url_image'', ''generation_id'', ''evolves_from_species_id'', ''note''] ''pokemon'' = Inr 0 \<and>
   length (snd (readline example_csv)) = 4 \<and>
   fst (get_pokemon_names (snd (create_table '','' example_float example_csv fresh))) =
     Inr [''bulbasaur'', ''charizard'', ''charizard'', ''charmander'']"
proof -
  have ok: "fst (create_table '','' example_float example_csv fresh) = Inr ()"
    by code_simp
  from get_pokemon_names_after_load [OF ok] obtain names where
    names: "fst (get_pokemon_names (snd (create_table '','' example_float example_csv fresh))) = Inr names"
    and "sorted names" and "length names = length (snd (readline example_csv))"
    by blast
  have "fst (get_pokemon_names (snd (create_table '','' example_float example_csv fresh))) =
     Inr [''bulbasaur'', ''charizard'', ''charizard'', ''charmander'']"
    by code_simp
  moreover have "length (snd (readline example_csv)) = 4"
    by (simp add: readline_def example_csv_def)
  moreover have "index [''pokemon'', ''species_id'', ''height'', ''weight'', ''type_1'', ''type_2'',
          ''url_image'', ''generation_id'', ''evolves_from_species_id'', ''note''] ''pokemon'' = Inr 0"
    by simp
  ultimately show ?thesis using ok names by simp
qed

subsection \<open>Lower case\<close>

text \<open>
  C4. After \<open>create_table\<close>, whatever the CSV file holds and whether the call returns
  or raises, the table exists and the five string fields of each of its rows are in lower
  case. An operation other than the load leaves the table as it is. So the table is in lower
  case after every sequence of operations that follows a load (further loads among them).
\<close>

theorem lower_case_after_load:
  "(\<exists>rows. pokemon_table (snd (create_table SEP py_float f cur)) = Some rows \<and>
      (\<forall>r \<in> set rows. is_lower (name r) \<and> is_lower (type_1 r) \<and> is_lower (type_2 r) \<and>
         is_lower (url_image r) \<and> is_lower (evolves_from_species_id r))) \<and>
   ((\<forall>f. operation \<noteq> Load f) \<longrightarrow> perform SEP py_float tbl operation = tbl) \<and>
   lower_case_table
     (foldl (perform SEP py_float) (pokemon_table (snd (create_table SEP py_float f cur))) ops)"
proof -
  from create_table_lower_case [of SEP py_float f cur] obtain rows where
    rows: "pokemon_table (snd (create_table SEP py_float f cur)) = Some rows"
    and lc: "\<forall>r \<in> set rows. lower_case_row r"
    by blast
  from rows lc have "lower_case_table (pokemon_table (snd (create_table SEP py_float f cur)))"
    by (simp add: lower_case_table_def list_all_iff)
  then have "lower_case_table
     (foldl (perform SEP py_float) (pokemon_table (snd (create_table SEP py_float f cur))) ops)"
    by (rule foldl_perform_lower_case)
  moreover from lc have "\<forall>r \<in> set rows. is_lower (name r) \<and> is_lower (type_1 r) \<and>
      is_lower (type_2 r) \<and> is_lower (url_image r) \<and> is_lower (evolves_from_species_id r)"
    by (simp add: lower_case_row_def)
  ultimately show ?thesis using rows perform_read by blast
qed

theorem lower_case_after_load_witness:
  "pokemon_table (snd (create_table '','' example_float example_csv fresh)) = Some example_rows \<and>
   list_all lower_case_row example_rows \<and>
   perform '','' example_float (Some example_rows) (GetByName ''Charizard'') = Some example_rows \<and>
   lower_case_table
     (foldl (perform '','' example_float)
        (pokemon_table (snd (create_table '','' example_float example_csv fresh)))
        [ListNames, GetByName ''Charizard'', Load scenario_csv, Exists, ListByType ''grass''])"
proof -
  have tbl: "pokemon_table (snd (create_table '','' example_float example_csv fresh)) = Some example_rows"
    by code_simp
  have read: "\<forall>f. GetByName ''Charizard'' \<noteq> Load f"
    by simp
  from lower_case_after_load [of "'',''" example_float example_csv fresh "GetByName ''Charizard''"
      "Some example_rows" "[ListNames, GetByName ''Charizard'', Load scenario_csv, Exists, ListByType ''grass'']"]
    tbl read
  show ?thesis by (auto simp: lower_case_row_def list_all_iff)
qed

subsection \<open>Loading twice\<close>

text \<open>
  C8. Calling \<open>create_table\<close> a second time with the same CSV file gives the same outcome
  and leaves the same table (so the same number of rows) as the first call, and each of the
  six queries answers the same after the second call as after the first. The table that
  \<open>create_table\<close> leaves does not depend on the table it finds.
\<close>

theorem create_table_twice:
  "(let once = snd (create_table SEP py_float f cur);
        twice = snd (create_table SEP py_float f once)
    in fst (create_table SEP py_float f once) = fst (create_table SEP py_float f cur) \<and>
       pokemon_table twice = pokemon_table once \<and>
       fst (get_pokemon_names twice) = fst (get_pokemon_names once) \<and>
       fst (get_pokemon_ids twice) = fst (get_pokemon_ids once) \<and>
       fst (get_stats_by_name nm twice) = fst (get_stats_by_name nm once) \<and>
       fst (get_stats_by_id sid twice) = fst (get_stats_by_id sid once) \<and>
       fst (get_pokemon_types twice) = fst (get_pokemon_types once) \<and>
       fst (get_pokemon_by_type t twice) = fst (get_pokemon_by_type t once))"
proof -
  have "create_table SEP py_float f (snd (create_table SEP py_float f cur)) =
          create_table SEP py_float f cur"
    by (rule create_table_any_cursor)
  then show ?thesis by (simp add: Let_def)
qed

subsection \<open>The scenario of the specification\<close>

text \<open>
  C9. The CSV file has the header
  \<open>species_id,pokemon,height,weight,type_1,type_2,url_image,generation_id,evolves_from_species_id\<close>
  and the one row \<open>1,Bulbasaur,0.7,6.9,Grass,Poison,http://x,1,\<close>; the separator is the
  comma. With \<open>h\<close> and \<open>w\<close> the floats that \<open>float\<close> makes of \<open>0.7\<close> and \<open>6.9\<close>,
  \<open>create_table\<close> returns and \<open>get_stats_by_name\<close> for \<open>bulbasaur\<close> then returns the
  row (bulbasaur, 1, h, w, grass, poison, http://x, 1, empty string).
\<close>

theorem scenario_bulbasaur:
  assumes "py_float ''0.7'' = Some h" and "py_float ''6.9'' = Some w"
  shows "fst (create_table '','' py_float scenario_csv cur) = Inr () \<and>
         fst (get_stats_by_name ''bulbasaur'' (snd (create_table '','' py_float scenario_csv cur))) =
           Inr \<lparr>name = ''bulbasaur'', species_id = 1, height = h, weight = w,
                type_1 = ''grass'', type_2 = ''poison'', url_image = ''http://x'',
                generation_id = 1, evolves_from_species_id = ''''\<rparr>"
proof -
  let ?header = "[''species_id'', ''pokemon'', ''height'', ''weight'', ''type_1'', ''type_2'',
         ''url_image'', ''generation_id'', ''evolves_from_species_id'']"
  have "set columns \<subseteq> set ?header"
    by (simp add: columns_def)
  then obtain d where d: "header_loop columns ?header Map.empty = Inr d"
    using header_loop_total by blast
  have "create_table '','' py_float scenario_csv cur =
          (Inr (), \<lparr>pokemon_table = Some [\<lparr>name = ''bulbasaur'', species_id = 1, height = h, weight = w,
                type_1 = ''grass'', type_2 = ''poison'', url_image = ''http://x'',
                generation_id = 1, evolves_from_species_id = ''''\<rparr>], results = []\<rparr>)"
    by (simp add: create_table_eq scenario_header d scenario_row [OF d assms, simplified]
          execute_insert_def int64_def)
  then show ?thesis
    by (simp add: get_stats_by_name_eq getitem_def)
qed

theorem scenario_bulbasaur_witness:
  "example_float ''0.7'' = Some ''0.7'' \<and> example_float ''6.9'' = Some ''6.9'' \<and>
   fst (create_table '','' example_float scenario_csv fresh) = Inr () \<and>
   fst (get_stats_by_name ''bulbasaur'' (snd (create_table '','' example_float scenario_csv fresh))) =
     Inr \<lparr>name = ''bulbasaur'', species_id = 1, height = ''0.7'', weight = ''6.9'',
          type_1 = ''grass'', type_2 = ''poison'', url_image = ''http://x'',
          generation_id = 1, evolves_from_species_id = ''''\<rparr>"
proof -
  have h: "example_float ''0.7'' = Some ''0.7''" and w: "example_float ''6.9'' = Some ''6.9''"
    by (simp_all add: example_float_def)
  from scenario_bulbasaur [OF h w, of fresh] h w show ?thesis by simp
qed

end
